theory Spec2Isabelle
  imports Main "HOL-Library.Sublist"
begin

section \<open>The pattern matcher consumed by the router (fp-ts-routing)\<close>

text \<open>
  The router of \<^verbatim>\<open>src/index.ts\<close> imports \<^verbatim>\<open>parse\<close>, \<^verbatim>\<open>Route\<close>, \<^verbatim>\<open>zero\<close>,
  \<^verbatim>\<open>Match\<close>, \<^verbatim>\<open>Parser\<close> and \<^verbatim>\<open>format\<close> from the library fp-ts-routing, which is not part
  of the repository. This section models that interface. No theorem about the router
  below looks inside \<open>Route_parse\<close> or \<open>Route_toString\<close>; only the evaluations at
  concrete requests do.
\<close>

text \<open>A route: the path segments and the query of a location.\<close>

record Route =
  parts :: "string list"
  query :: "(string \<times> string) list"

definition Route_empty :: Route where
  "Route_empty = \<lparr>parts = [], query = []\<rparr>"

definition Route_isEmpty :: "Route \<Rightarrow> bool" where
  "Route_isEmpty r = (parts r = [] \<and> query r = [])"

fun split_on :: "char \<Rightarrow> string \<Rightarrow> string list" where
  "split_on sep [] = [[]]"
| "split_on sep (c # cs) =
     (if c = sep then [] # split_on sep cs
      else (case split_on sep cs of
              [] \<Rightarrow> [[c]]
            | p # ps \<Rightarrow> (c # p) # ps))"

fun join :: "string \<Rightarrow> string list \<Rightarrow> string" where
  "join sep [] = []"
| "join sep [x] = x"
| "join sep (x # y # ys) = x @ sep @ join sep (y # ys)"

text \<open>
  Modelled from the spec: \<^verbatim>\<open>Route.parse\<close> of the pattern matcher, the "path string
  already parsed into the Pattern Matcher's route representation". The path is cut at
  every slash and the empty segments are dropped. \<^verbatim>\<open>ctx.path\<close> carries no query string;
  percent-decoding of the segments is left out.
\<close>

definition Route_parse :: "string \<Rightarrow> Route" where
  "Route_parse s = \<lparr>parts = filter (\<lambda>p. p \<noteq> []) (split_on CHR ''/'' s), query = []\<rparr>"

text \<open>
  Modelled from the spec: \<^verbatim>\<open>Route.toString\<close>, the path string of a route; the query
  string and percent-encoding of the segments are left out.
\<close>

definition Route_toString :: "Route \<Rightarrow> string" where
  "Route_toString r = ''/'' @ join ''/'' (parts r)"

text \<open>
  A parser consumes a prefix of a route: it fails, or returns a value and the rest of
  the route (\<^verbatim>\<open>run: (r: Route) => Option<[A, Route]>\<close>). A formatter extends a route
  by the segments of a value.
\<close>

type_synonym 'a Parser = "Route \<Rightarrow> ('a \<times> Route) option"

type_synonym 'a Formatter = "Route \<Rightarrow> 'a \<Rightarrow> Route"

record 'a Match =
  parser :: "'a Parser"
  formatter :: "'a Formatter"

text \<open>Modelled from the spec: the empty matcher, which fails on every route.\<close>

definition zero :: "'a Parser" where
  "zero = (\<lambda>r. None)"

text \<open>
  Modelled from the spec: the alternation combiner "that tries A then B"
  (\<^verbatim>\<open>Parser.alt\<close>): the second parser runs only on a route the first one fails on.
\<close>

definition alt :: "'a Parser \<Rightarrow> 'a Parser \<Rightarrow> 'a Parser" where
  "alt this that = (\<lambda>r. case this r of None \<Rightarrow> that r | Some oar \<Rightarrow> Some oar)"

text \<open>\<^verbatim>\<open>Parser.map\<close>: the same parser with the function applied to the value it returns.\<close>

definition Parser_map :: "('a \<Rightarrow> 'b) \<Rightarrow> 'a Parser \<Rightarrow> 'b Parser" where
  "Parser_map f this = (\<lambda>r. case this r of None \<Rightarrow> None | Some (a, r2) \<Rightarrow> Some (f a, r2))"

text \<open>
  \<^verbatim>\<open>parse(parser, r, a)\<close>: the value the parser returns on the route, whatever is left of
  the route, and the default \<open>a\<close> when the parser fails. The router passes
  \<^verbatim>\<open>null\<close> as the default, so the result is nullable: \<open>None\<close> is \<^verbatim>\<open>null\<close>.
\<close>

definition parse :: "'a Parser \<Rightarrow> Route \<Rightarrow> 'a option \<Rightarrow> 'a option" where
  "parse p r a = (case p r of None \<Rightarrow> a | Some (x, r2) \<Rightarrow> Some x)"

text \<open>\<^verbatim>\<open>format(formatter, a)\<close>: the path of the route the formatter builds from the empty route.\<close>

definition format :: "'a Formatter \<Rightarrow> 'a \<Rightarrow> string" where
  "format f a = Route_toString (f Route_empty a)"

subsection \<open>The patterns of the test suite\<close>

text \<open>
  Parameter objects such as \<^verbatim>\<open>{ id: 'foo' }\<close> are association lists of field names and
  string values. \<open>end_match\<close>, \<open>lit\<close>, \<open>str\<close> and \<open>then_match\<close> are the library's
  \<^verbatim>\<open>end\<close>, \<^verbatim>\<open>lit\<close>, \<^verbatim>\<open>str\<close> and \<^verbatim>\<open>Match.then\<close>; they are used only to evaluate the
  router at the requests of \<^verbatim>\<open>src/index.test.ts\<close>.
\<close>

type_synonym Params = "(string \<times> string) list"

definition field :: "string \<Rightarrow> Params \<Rightarrow> string" where
  "field k a = (case map_of a k of None \<Rightarrow> [] | Some v \<Rightarrow> v)"

definition end_match :: "Params Match" where
  "end_match =
     \<lparr>parser = (\<lambda>r. if Route_isEmpty r then Some ([], r) else None),
      formatter = (\<lambda>r a. r)\<rparr>"

definition lit :: "string \<Rightarrow> Params Match" where
  "lit literal =
     \<lparr>parser = (\<lambda>r. case parts r of
                       [] \<Rightarrow> None
                     | head # tail \<Rightarrow>
                         if head = literal then Some ([], r\<lparr>parts := tail\<rparr>) else None),
      formatter = (\<lambda>r a. r\<lparr>parts := parts r @ [literal]\<rparr>)\<rparr>"

definition str :: "string \<Rightarrow> Params Match" where
  "str k =
     \<lparr>parser = (\<lambda>r. case parts r of
                       [] \<Rightarrow> None
                     | head # tail \<Rightarrow> Some ([(k, head)], r\<lparr>parts := tail\<rparr>)),
      formatter = (\<lambda>r a. r\<lparr>parts := parts r @ [field k a]\<rparr>)\<rparr>"

definition then_match :: "Params Match \<Rightarrow> Params Match \<Rightarrow> Params Match" where
  "then_match this that =
     \<lparr>parser = (\<lambda>r. case parser this r of
                       None \<Rightarrow> None
                     | Some (a, r2) \<Rightarrow>
                         (case parser that r2 of
                            None \<Rightarrow> None
                          | Some (b, r3) \<Rightarrow> Some (a @ b, r3))),
      formatter = (\<lambda>r ab. formatter that (formatter this r ab) ab)\<rparr>"

section \<open>The host framework (Koa)\<close>

text \<open>
  The request context is the mutable object every middleware of a request shares; the
  model passes it along and returns it updated. \<open>headers\<close> are the response headers
  written with \<^verbatim>\<open>ctx.set\<close>; \<open>params\<close> is the field the router attaches, of a type
  \<open>'p\<close> that holds the parameter objects of all routes (and the value of a context
  nothing was attached to). The field \<open>method'\<close> is \<^verbatim>\<open>ctx.method\<close>; the unprimed name
  is a keyword of Isabelle. An assignment to \<^verbatim>\<open>ctx.status\<close> or \<^verbatim>\<open>ctx.body\<close> is the update
  of the field: what else the setters of the host framework do (content type and length,
  the check that a status code is a valid one) is not modelled.
\<close>

record 'p Context =
  method' :: string
  path :: string
  status :: int
  body :: "string option"
  headers :: "string \<rightharpoonup> string"
  params :: 'p

text \<open>A middleware or handler that throws, or whose promise is rejected.\<close>

datatype error = Thrown string

text \<open>
  A middleware takes the context and the continuation \<^verbatim>\<open>next\<close>; it returns the context
  as the request leaves it, or fails. Awaiting a promise is the plain function call.
\<close>

type_synonym 'p Next = "'p Context \<Rightarrow> error + 'p Context"

type_synonym 'p Middleware = "'p Context \<Rightarrow> 'p Next \<Rightarrow> error + 'p Context"

text \<open>
  Modelled from the spec: the chain-composition primitive of the host framework
  (\<^verbatim>\<open>compose\<close> of koa-compose), "each stage may invoke the next, short-circuit, or throw": the
  continuation of a stage is the rest of the list, and the continuation of the last stage
  is the \<^verbatim>\<open>next\<close> the composed middleware was called with. The guard of koa-compose
  against a stage that calls its continuation twice is left out.
\<close>

fun koa_compose :: "'p Middleware list \<Rightarrow> 'p Middleware" where
  "koa_compose [] ctx next = next ctx"
| "koa_compose (fn # rest) ctx next = fn ctx (\<lambda>ctx'. koa_compose rest ctx' next)"

text \<open>
  Modelled from the spec: the redirect helper \<^verbatim>\<open>ctx.redirect(url)\<close> of the context. It
  sets the \<^verbatim>\<open>Location\<close> header, makes the status 302 unless a redirect status is
  already set, and writes a short body.
\<close>

definition ctx_redirect :: "string \<Rightarrow> 'p Context \<Rightarrow> 'p Context" where
  "ctx_redirect url ctx =
     ctx\<lparr>headers := (headers ctx)(''Location'' \<mapsto> url),
         status := (if status ctx \<in> {300, 301, 302, 303, 305, 307, 308} then status ctx else 302),
         body := Some (''Redirecting to '' @ url @ ''.'')\<rparr>"

section \<open>The router\<close>

text \<open>
  \<^verbatim>\<open>type Method = 'GET' | 'POST' | 'PATCH' | 'DELETE' | 'HEAD' | 'OPTIONS' | 'PUT'\<close>.
  The parser table is indexed by \<^verbatim>\<open>Exclude<Method, 'OPTIONS'>\<close>, a type of its own here.
\<close>

datatype RouteMethod = DELETE | GET | HEAD | PATCH | POST | PUT

datatype Method = OPTIONS | Routed RouteMethod

fun method_name :: "RouteMethod \<Rightarrow> string" where
  "method_name DELETE = ''DELETE''"
| "method_name GET = ''GET''"
| "method_name HEAD = ''HEAD''"
| "method_name PATCH = ''PATCH''"
| "method_name POST = ''POST''"
| "method_name PUT = ''PUT''"

record 'p Router =
  middlewares :: "'p Middleware list"
  parsers :: "RouteMethod \<Rightarrow> 'p Middleware Parser"

text \<open>The constructor takes no argument.\<close>

definition Router_new :: "'p Router" where
  "Router_new = \<lparr>middlewares = [], parsers = (\<lambda>m. zero)\<rparr>"

definition parseMethod :: "string \<Rightarrow> Method option" where
  "parseMethod s =
     (if s = ''DELETE'' then Some (Routed DELETE)
      else if s = ''GET'' then Some (Routed GET)
      else if s = ''HEAD'' then Some (Routed HEAD)
      else if s = ''OPTIONS'' then Some OPTIONS
      else if s = ''PATCH'' then Some (Routed PATCH)
      else if s = ''PUT'' then Some (Routed PUT)
      else if s = ''POST'' then Some (Routed POST)
      else None)"

definition register :: "RouteMethod \<Rightarrow> 'p Match \<Rightarrow> 'p Middleware \<Rightarrow> 'p Router \<Rightarrow> 'p Router" where
  "register m match middleware this =
     (let parser' = Parser_map (\<lambda>ps. (\<lambda>ctx next. middleware (ctx\<lparr>params := ps\<rparr>) next)) (parser match)
      in this\<lparr>parsers := (parsers this)(m := alt (parsers this m) parser')\<rparr>)"

definition compose :: "'p Middleware list \<Rightarrow> 'p Middleware" where
  "compose ms = koa_compose ms"

definition all :: "'p Match \<Rightarrow> 'p Middleware \<Rightarrow> 'p Router \<Rightarrow> 'p Router" where
  "all match middleware this =
     fold (\<lambda>m. register m match middleware) [DELETE, GET, PATCH, POST, PUT] this"

definition use :: "'p Middleware \<Rightarrow> 'p Router \<Rightarrow> 'p Router" where
  "use middleware this = this\<lparr>middlewares := middlewares this @ [middleware]\<rparr>"

definition delete :: "'p Match \<Rightarrow> 'p Middleware \<Rightarrow> 'p Router \<Rightarrow> 'p Router" where
  "delete match middleware this = register DELETE match middleware this"

definition get :: "'p Match \<Rightarrow> 'p Middleware \<Rightarrow> 'p Router \<Rightarrow> 'p Router" where
  "get match middleware this =
     register HEAD match middleware (register GET match middleware this)"

definition patch :: "'p Match \<Rightarrow> 'p Middleware \<Rightarrow> 'p Router \<Rightarrow> 'p Router" where
  "patch match middleware this = register PATCH match middleware this"

definition post :: "'p Match \<Rightarrow> 'p Middleware \<Rightarrow> 'p Router \<Rightarrow> 'p Router" where
  "post match middleware this = register POST match middleware this"

definition put :: "'p Match \<Rightarrow> 'p Middleware \<Rightarrow> 'p Router \<Rightarrow> 'p Router" where
  "put match middleware this = register PUT match middleware this"

text \<open>
  The handler \<^verbatim>\<open>redirect\<close> registers, an anonymous function in the source. It reads the
  parameters \<^verbatim>\<open>register\<close> has put into the context, and it does not call \<^verbatim>\<open>next\<close>. An
  omitted \<^verbatim>\<open>code\<close> is \<open>None\<close>, for which the default 302 is taken.
\<close>

definition redirect_handler :: "'p Match \<Rightarrow> ('p \<Rightarrow> 'p) \<Rightarrow> int option \<Rightarrow> 'p Middleware" where
  "redirect_handler dest f code =
     (\<lambda>ctx next.
        let ps = f (params ctx);
            path' = format (formatter dest) ps
        in Inr ((ctx_redirect path' ctx)\<lparr>status := (case code of None \<Rightarrow> 302 | Some c \<Rightarrow> c)\<rparr>))"

definition redirect ::
  "'p Match \<Rightarrow> 'p Match \<Rightarrow> ('p \<Rightarrow> 'p) \<Rightarrow> int option \<Rightarrow> 'p Router \<Rightarrow> 'p Router" where
  "redirect src dest f code this = all src (redirect_handler dest f code) this"

text \<open>
  The list of allowed methods on the endpoint (the local constant \<^verbatim>\<open>allowedMethods\<close> of
  the middleware of the same name).
\<close>

definition allowed :: "'p Router \<Rightarrow> string \<Rightarrow> RouteMethod list" where
  "allowed this p =
     filter (\<lambda>m. parse (parsers this m) (Route_parse p) None \<noteq> None)
       [DELETE, GET, HEAD, PATCH, POST, PUT]"

definition allowedMethods :: "'p Router \<Rightarrow> 'p Middleware" where
  "allowedMethods this ctx next =
     (case parseMethod (method' ctx) of
        None \<Rightarrow> Inr (ctx\<lparr>status := 501\<rparr>)
      | Some OPTIONS \<Rightarrow>
          Inr (ctx\<lparr>status := 200, body := Some [],
                   headers := (headers ctx)(''Allow'' \<mapsto>
                      join '', '' (map method_name (allowed this (path ctx))))\<rparr>)
      | Some (Routed m) \<Rightarrow>
          if m \<in> set (allowed this (path ctx)) then next ctx
          else Inr (ctx\<lparr>status := 405,
                        headers := (headers ctx)(''Allow'' \<mapsto>
                           join '', '' (map method_name (allowed this (path ctx))))\<rparr>))"

definition routes :: "'p Router \<Rightarrow> 'p Middleware" where
  "routes this ctx next =
     (case parseMethod (method' ctx) of
        None \<Rightarrow> next ctx
      | Some OPTIONS \<Rightarrow> next ctx
      | Some (Routed m) \<Rightarrow>
          (case parse (parsers this m) (Route_parse (path ctx)) None of
             None \<Rightarrow> next ctx
           | Some middleware \<Rightarrow> compose (middlewares this @ [middleware]) ctx next))"

section \<open>Configuring a router through its public surface\<close>

text \<open>
  Application code builds a router by a sequence of calls of its public methods on a new
  router, before any request is served.
\<close>

datatype 'p Call =
    Delete "'p Match" "'p Middleware"
  | Get "'p Match" "'p Middleware"
  | Patch "'p Match" "'p Middleware"
  | Post "'p Match" "'p Middleware"
  | Put "'p Match" "'p Middleware"
  | Redirect "'p Match" "'p Match" "'p \<Rightarrow> 'p" "int option"
  | Use "'p Middleware"

fun call :: "'p Call \<Rightarrow> 'p Router \<Rightarrow> 'p Router" where
  "call (Delete match middleware) this = delete match middleware this"
| "call (Get match middleware) this = get match middleware this"
| "call (Patch match middleware) this = patch match middleware this"
| "call (Post match middleware) this = post match middleware this"
| "call (Put match middleware) this = put match middleware this"
| "call (Redirect src dest f code) this = redirect src dest f code this"
| "call (Use middleware) this = use middleware this"

definition configure :: "'p Call list \<Rightarrow> 'p Router" where
  "configure cs = fold call cs Router_new"

fun is_redirect :: "'p Call \<Rightarrow> bool" where
  "is_redirect (Redirect src dest f code) = True"
| "is_redirect c = False"

fun get_patterns :: "'p Call list \<Rightarrow> 'p Match list" where
  "get_patterns [] = []"
| "get_patterns (Get match middleware # cs) = match # get_patterns cs"
| "get_patterns (c # cs) = get_patterns cs"

section \<open>The specification's view of the route table\<close>

text \<open>
  The definitions of this section follow the words of the specification, not the code;
  the theorems compare them with the router above.
\<close>

text \<open>
  The matched, parameter-injecting handler: the handler of a route, run on the context
  with the extracted parameters written into \<open>params\<close>.
\<close>

definition inject :: "'p Middleware \<Rightarrow> 'p \<Rightarrow> 'p Middleware" where
  "inject middleware ps = (\<lambda>ctx next. middleware (ctx\<lparr>params := ps\<rparr>) next)"

text \<open>
  The (method, pattern, handler) triples a call registers, in order: one for
  \<^verbatim>\<open>delete\<close>, \<^verbatim>\<open>patch\<close>, \<^verbatim>\<open>post\<close> and \<^verbatim>\<open>put\<close>, two for \<^verbatim>\<open>get\<close>, five for
  \<^verbatim>\<open>redirect\<close>, none for \<^verbatim>\<open>use\<close>.
\<close>

fun registered :: "'p Call \<Rightarrow> (RouteMethod \<times> 'p Match \<times> 'p Middleware) list" where
  "registered (Delete match h) = [(DELETE, match, h)]"
| "registered (Get match h) = [(GET, match, h), (HEAD, match, h)]"
| "registered (Patch match h) = [(PATCH, match, h)]"
| "registered (Post match h) = [(POST, match, h)]"
| "registered (Put match h) = [(PUT, match, h)]"
| "registered (Redirect src dest f code) =
     map (\<lambda>m. (m, src, redirect_handler dest f code)) [DELETE, GET, PATCH, POST, PUT]"
| "registered (Use middleware) = []"

definition registrations ::
  "'p Call list \<Rightarrow> (RouteMethod \<times> 'p Match \<times> 'p Middleware) list" where
  "registrations cs = concat (map registered cs)"

text \<open>The Global Middleware List: the middlewares given to \<^verbatim>\<open>use\<close>, in the order of the calls.\<close>

fun global_middlewares :: "'p Call list \<Rightarrow> 'p Middleware list" where
  "global_middlewares [] = []"
| "global_middlewares (Use middleware # cs) = middleware # global_middlewares cs"
| "global_middlewares (c # cs) = global_middlewares cs"

text \<open>
  "First successful match wins; patterns are tried in registration order": the triples of
  the requested method are tried from the first registered on, and the first whose
  pattern matches the route gives the parameter-injecting handler.
\<close>

fun first_match ::
  "(RouteMethod \<times> 'p Match \<times> 'p Middleware) list \<Rightarrow> RouteMethod \<Rightarrow> Route \<Rightarrow>
     ('p Middleware \<times> Route) option" where
  "first_match [] m r = None"
| "first_match ((m', pat, h) # regs) m r =
     (if m' = m
      then (case parser pat r of
              Some (ps, r2) \<Rightarrow> Some (inject h ps, r2)
            | None \<Rightarrow> first_match regs m r)
      else first_match regs m r)"

text \<open>Registering a list of triples one after the other, as the calls do.\<close>

definition register_all ::
  "(RouteMethod \<times> 'p Match \<times> 'p Middleware) list \<Rightarrow> 'p Router \<Rightarrow> 'p Router" where
  "register_all regs this = fold (\<lambda>(m, match, h). register m match h) regs this"

section \<open>The requests of the test suite\<close>

text \<open>
  The patterns, handlers and requests of \<^verbatim>\<open>src/index.test.ts\<close>. A request arrives with
  status 404, no body and no response header; \<open>downstream\<close> is the \<^verbatim>\<open>next\<close> of a
  router mounted last, which leaves the context as it is. A handler that assigns a body
  makes the status 200.
\<close>

definition request :: "string \<Rightarrow> string \<Rightarrow> Params Context" where
  "request m p = \<lparr>method' = m, path = p, status = 404, body = None, headers = Map.empty, params = []\<rparr>"

definition downstream :: "Params Next" where
  "downstream ctx = Inr ctx"

definition root :: "Params Match" where
  "root = end_match"

definition user :: "Params Match" where
  "user = then_match (then_match (lit ''users'') (str ''id'')) end_match"

definition oldUser :: "Params Match" where
  "oldUser = then_match (str ''userID'') end_match"

definition newUser :: "Params Match" where
  "newUser = then_match (then_match (lit ''users'') (str ''id'')) end_match"

definition profile :: "Params Match" where
  "profile = then_match (str ''id'') end_match"

definition userID_to_id :: "Params \<Rightarrow> Params" where
  "userID_to_id a = [(''id'', field ''userID'' a)]"

definition hello_world :: "Params Middleware" where
  "hello_world ctx next = Inr (ctx\<lparr>status := 200, body := Some ''Hello, world!''\<rparr>)"

definition hello_user :: "Params Middleware" where
  "hello_user ctx next =
     Inr (ctx\<lparr>status := 200, body := Some (''Hello, '' @ field ''id'' (params ctx) @ ''!'')\<rparr>)"

definition root_handler :: "Params Middleware" where
  "root_handler ctx next = Inr (ctx\<lparr>status := 200, body := Some ''root''\<rparr>)"

text \<open>A global middleware that writes a response header and calls \<^verbatim>\<open>next\<close>.\<close>

definition stamp :: "string \<Rightarrow> Params Middleware" where
  "stamp v ctx next = next (ctx\<lparr>headers := (headers ctx)(''X-Trace'' \<mapsto> v)\<rparr>)"

text \<open>A global middleware that answers 401 and does not call \<^verbatim>\<open>next\<close>.\<close>

definition deny :: "Params Middleware" where
  "deny ctx next = Inr (ctx\<lparr>status := 401\<rparr>)"

section \<open>Facts about the route table\<close>

lemma parseMethod_method_name: "parseMethod (method_name m) = Some (Routed m)"
  by (cases m) (simp_all add: parseMethod_def)

lemma register_parsers:
  "parsers (register m match h this) m' r =
     (if m' = m
      then (case parsers this m r of
              Some x \<Rightarrow> Some x
            | None \<Rightarrow> (case parser match r of
                         Some (ps, r2) \<Rightarrow> Some (inject h ps, r2)
                       | None \<Rightarrow> None))
      else parsers this m' r)"
  by (simp add: register_def alt_def Parser_map_def inject_def Let_def split: option.splits)

lemma inject_eta: "inject h = (\<lambda>ps ctx next. h (ctx\<lparr>params := ps\<rparr>) next)"
  by (rule ext) (simp add: inject_def)

lemma register_slot:
  "parsers (register m match h this) =
     (parsers this)(m := alt (parsers this m) (Parser_map (inject h) (parser match)))"
  by (simp add: register_def inject_eta Let_def)

lemma register_middlewares: "middlewares (register m match h this) = middlewares this"
  by (simp add: register_def Let_def)

lemma register_all_parsers:
  "parsers (register_all regs this) m r =
     (case parsers this m r of Some x \<Rightarrow> Some x | None \<Rightarrow> first_match regs m r)"
proof (induction regs arbitrary: this)
  case Nil
  then show ?case by (simp add: register_all_def split: option.splits)
next
  case (Cons t regs)
  obtain m' pat h where t: "t = (m', pat, h)" by (cases t)
  have "register_all (t # regs) this = register_all regs (register m' pat h this)"
    by (simp add: register_all_def t)
  then show ?case
    using Cons.IH [of "register m' pat h this"]
    by (simp add: t register_parsers split: option.splits)
qed

lemma call_parsers: "parsers (call c this) = parsers (register_all (registered c) this)"
  by (cases c)
     (simp_all add: register_all_def delete_def get_def patch_def post_def put_def
        redirect_def all_def use_def)

lemma call_middlewares:
  "middlewares (call c this) = middlewares this @ global_middlewares [c]"
  by (cases c)
     (simp_all add: delete_def get_def patch_def post_def put_def
        redirect_def all_def use_def register_middlewares)

lemma first_match_append:
  "first_match (xs @ ys) m r =
     (case first_match xs m r of Some x \<Rightarrow> Some x | None \<Rightarrow> first_match ys m r)"
  by (induction xs) (auto split: option.splits)

lemma fold_call_parsers:
  "parsers (fold call cs this) m r =
     (case parsers this m r of
        Some x \<Rightarrow> Some x
      | None \<Rightarrow> first_match (registrations cs) m r)"
proof (induction cs arbitrary: this)
  case Nil
  then show ?case by (simp add: registrations_def split: option.splits)
next
  case (Cons c cs)
  have "registrations (c # cs) = registered c @ registrations cs"
    by (simp add: registrations_def)
  then show ?case
    using Cons.IH [of "call c this"]
    by (simp add: call_parsers register_all_parsers first_match_append split: option.splits)
qed

lemma fold_call_middlewares:
  "middlewares (fold call cs this) = middlewares this @ global_middlewares cs"
proof (induction cs arbitrary: this)
  case Nil
  then show ?case by simp
next
  case (Cons c cs)
  have "global_middlewares (c # cs) = global_middlewares [c] @ global_middlewares cs"
    by (cases c) simp_all
  moreover have "fold call (c # cs) this = fold call cs (call c this)"
    by simp
  ultimately show ?case
    by (simp only: Cons.IH call_middlewares append_assoc)
qed

lemma configure_parsers: "parsers (configure cs) m r = first_match (registrations cs) m r"
  by (simp add: configure_def fold_call_parsers Router_new_def zero_def)

lemma configure_middlewares: "middlewares (configure cs) = global_middlewares cs"
  by (simp add: configure_def fold_call_middlewares Router_new_def)

lemma koa_compose_append:
  "koa_compose (ms @ [h]) ctx next = koa_compose ms ctx (\<lambda>c. h c next)"
  by (induction ms arbitrary: ctx) simp_all

lemma routes_no_match:
  "parseMethod (method' ctx) = Some (Routed m) \<Longrightarrow> parsers this m (Route_parse (path ctx)) = None \<Longrightarrow>
     routes this ctx next = next ctx"
  by (simp add: routes_def parse_def)

lemma routes_match:
  "parseMethod (method' ctx) = Some (Routed m) \<Longrightarrow>
   parsers this m (Route_parse (path ctx)) = Some (h, rest) \<Longrightarrow>
     routes this ctx next = koa_compose (middlewares this @ [h]) ctx next"
  by (simp add: routes_def parse_def compose_def)

lemma parse_root: "Route_parse ''/'' = \<lparr>parts = [], query = []\<rparr>"
  by (simp add: Route_parse_def)

lemma parse_john: "Route_parse ''/john'' = \<lparr>parts = [''john''], query = []\<rparr>"
  by (simp add: Route_parse_def)

lemma parse_users_foo: "Route_parse ''/users/foo'' = \<lparr>parts = [''users'', ''foo''], query = []\<rparr>"
  by (simp add: Route_parse_def)

lemma parse_matches: "(parse p r None \<noteq> None) = (p r \<noteq> None)"
  by (simp add: parse_def split: option.splits)

lemma allowed_set:
  "set (allowed this p) = {m. parsers this m (Route_parse p) \<noteq> None}"
proof -
  have "m \<in> set [DELETE, GET, HEAD, PATCH, POST, PUT]" for m
    by (cases m) simp_all
  then show ?thesis
    unfolding allowed_def set_filter parse_matches by blast
qed

lemma allowed_subseq: "subseq (allowed this p) [DELETE, GET, HEAD, PATCH, POST, PUT]"
  unfolding allowed_def by (rule subseq_filter_left)

lemma allowed_example:
  "allowed (configure [Get root root_handler, Post root root_handler]) ''/'' = [GET, HEAD, POST]"
  by (simp add: allowed_def parse_def configure_parsers registrations_def root_def end_match_def
      parse_root Route_isEmpty_def)

lemma first_match_no_pattern:
  "list_all (\<lambda>(m', pat, h). m' = m \<longrightarrow> parser pat r = None) regs \<Longrightarrow> first_match regs m r = None"
  by (induction regs) auto

lemma registrations_Cons: "registrations (c # cs) = registered c @ registrations cs"
  by (simp add: registrations_def)

lemma registrations_append: "registrations (xs @ ys) = registrations xs @ registrations ys"
  by (simp add: registrations_def)

lemma first_match_head_get:
  "list_all (\<lambda>c. \<not> is_redirect c) cs \<Longrightarrow>
     first_match (registrations cs) HEAD r = first_match (registrations cs) GET r"
proof (induction cs)
  case Nil
  then show ?case by (simp add: registrations_def)
next
  case (Cons c cs)
  then show ?case
    by (cases c) (simp_all add: registrations_Cons first_match_append split: option.splits)
qed

lemma first_match_head_none:
  "list_all (\<lambda>pat. parser pat r = None) (get_patterns cs) \<Longrightarrow>
     first_match (registrations cs) HEAD r = None"
proof (induction cs)
  case Nil
  then show ?case by (simp add: registrations_def)
next
  case (Cons c cs)
  then show ?case
    by (cases c) (simp_all add: registrations_Cons first_match_append)
qed

lemma parse_profile_john:
  "parser profile \<lparr>parts = [''john''], query = []\<rparr> = Some ([(''id'', ''john'')], \<lparr>parts = [], query = []\<rparr>)"
  by (simp add: profile_def then_match_def str_def end_match_def Route_isEmpty_def)

lemma parse_oldUser_john:
  "parser oldUser \<lparr>parts = [''john''], query = []\<rparr> = Some ([(''userID'', ''john'')], \<lparr>parts = [], query = []\<rparr>)"
  by (simp add: oldUser_def then_match_def str_def end_match_def Route_isEmpty_def)

lemma format_newUser:
  "format (formatter newUser) (userID_to_id [(''userID'', ''john'')]) = ''/users/john''"
  by (simp add: format_def newUser_def then_match_def lit_def str_def end_match_def
      userID_to_id_def field_def Route_empty_def Route_toString_def)

lemma routes_configure:
  "parseMethod (method' ctx) = Some (Routed m) \<Longrightarrow>
   first_match (registrations cs) m (Route_parse (path ctx)) = Some (h, rest) \<Longrightarrow>
     routes (configure cs) ctx next = koa_compose (global_middlewares cs) ctx (\<lambda>c. h c next)"
  using routes_match [of ctx m "configure cs" h rest "next"]
  by (simp add: configure_parsers configure_middlewares koa_compose_append)

lemma redirect_slot:
  "m \<noteq> HEAD \<Longrightarrow>
     parsers (redirect src dest f code this) m =
       alt (parsers this m) (Parser_map (inject (redirect_handler dest f code)) (parser src))"
  by (cases m) (simp_all add: redirect_def all_def register_slot)

lemma redirect_head: "parsers (redirect src dest f code this) HEAD = parsers this HEAD"
  by (simp add: redirect_def all_def register_slot)

lemma first_match_redirect:
  "m \<noteq> HEAD \<Longrightarrow> parser src r = Some (ps, rest) \<Longrightarrow>
     first_match (registered (Redirect src dest f code)) m r =
       Some (inject (redirect_handler dest f code) ps, rest)"
  by (cases m) simp_all

section \<open>The claims\<close>

text \<open>
  C1. The claim: the constructor accepts an option \<^verbatim>\<open>basePath\<close>, and the target of every
  redirect is the formatted destination path prefixed with it. The test "w/ base path" of
  \<^verbatim>\<open>src/index.test.ts\<close> builds the router with \<^verbatim>\<open>basePath: '/admin/'\<close>, registers the
  redirect from \<open>oldUser\<close> to \<open>newUser\<close> and expects \<^verbatim>\<open>GET /john\<close> to answer with
  \<^verbatim>\<open>Location: /admin/users/john\<close>. The constructor of \<^verbatim>\<open>src/index.ts\<close> takes no argument
  and the router keeps no base path, so the router of that test is the one below: the
  target of the redirect is \<^verbatim>\<open>/users/john\<close>, without the prefix.
\<close>

theorem C1_redirect_without_base_path:
  "routes (redirect oldUser newUser userID_to_id None Router_new) (request ''GET'' ''/john'') downstream =
     Inr ((request ''GET'' ''/john'')
            \<lparr>params := [(''userID'', ''john'')], headers := [''Location'' \<mapsto> ''/users/john''],
             status := 302, body := Some ''Redirecting to /users/john.''\<rparr>)"
proof -
  let ?R = "redirect oldUser newUser userID_to_id None (Router_new :: Params Router)"
  let ?ctx = "request ''GET'' ''/john''"
  have "parsers ?R GET (Route_parse (path ?ctx)) =
      Some (inject (redirect_handler newUser userID_to_id None) [(''userID'', ''john'')],
            \<lparr>parts = [], query = []\<rparr>)"
    by (simp add: redirect_slot alt_def Parser_map_def Router_new_def zero_def request_def
        parse_john parse_oldUser_john)
  moreover have "parseMethod (method' ?ctx) = Some (Routed GET)"
    by (simp add: request_def parseMethod_def)
  ultimately have "routes ?R ?ctx downstream =
      koa_compose (middlewares ?R @ [inject (redirect_handler newUser userID_to_id None) [(''userID'', ''john'')]])
        ?ctx downstream"
    by (rule routes_match [rotated])
  moreover have "middlewares ?R = []"
    by (simp add: redirect_def all_def register_middlewares Router_new_def)
  ultimately show ?thesis
    by (simp add: inject_def redirect_handler_def ctx_redirect_def format_newUser request_def)
qed

text \<open>
  C2. Take a router configured by the calls \<open>cs\<close>, a registered triple \<open>(m, pat, h)\<close> and
  a request of method \<open>m\<close> whose path the slot matches through \<open>pat\<close>: \<open>pat\<close> yields the
  parameters \<open>ps\<close> and no triple registered earlier for \<open>m\<close> matches. Then \<^verbatim>\<open>routes()\<close>
  runs the composition of the global middlewares, in the order of their registration,
  followed by the one handler \<open>h\<close> with \<open>ps\<close> written into \<open>params\<close> before \<open>h\<close> runs,
  and the continuation of \<open>h\<close> is the \<^verbatim>\<open>next\<close> that \<^verbatim>\<open>routes()\<close> was called with. With no
  global middleware the request goes to \<open>h\<close> at once.
\<close>

theorem C2_routes_dispatch:
  assumes "registrations cs = earlier @ (m, pat, h) # later"
    and "first_match earlier m (Route_parse (path ctx)) = None"
    and "parser pat (Route_parse (path ctx)) = Some (ps, rest)"
    and "method' ctx = method_name m"
  shows "routes (configure cs) ctx next =
           koa_compose (middlewares (configure cs) @ [inject h ps]) ctx next \<and>
         middlewares (configure cs) = global_middlewares cs \<and>
         routes (configure cs) ctx next =
           koa_compose (global_middlewares cs) ctx (\<lambda>c. h (c\<lparr>params := ps\<rparr>) next) \<and>
         (global_middlewares cs = [] \<longrightarrow>
            routes (configure cs) ctx next = h (ctx\<lparr>params := ps\<rparr>) next)"
proof -
  have "parsers (configure cs) m (Route_parse (path ctx)) = Some (inject h ps, rest)"
    using assms(1,2,3) by (simp add: configure_parsers first_match_append)
  moreover have "parseMethod (method' ctx) = Some (Routed m)"
    using assms(4) by (simp add: parseMethod_method_name)
  ultimately have "routes (configure cs) ctx next =
      koa_compose (middlewares (configure cs) @ [inject h ps]) ctx next"
    by (rule routes_match [rotated])
  then show ?thesis
    by (simp add: configure_middlewares koa_compose_append inject_def)
qed

theorem C2_witness:
  "registrations [Use (stamp ''a''), Get root hello_world, Use (stamp ''b''), Get user hello_user] =
     [(GET, root, hello_world), (HEAD, root, hello_world)] @ (GET, user, hello_user) # [(HEAD, user, hello_user)] \<and>
   first_match [(GET, root, hello_world), (HEAD, root, hello_world)] GET
     (Route_parse (path (request ''GET'' ''/users/foo''))) = None \<and>
   parser user (Route_parse (path (request ''GET'' ''/users/foo''))) =
     Some ([(''id'', ''foo'')], \<lparr>parts = [], query = []\<rparr>) \<and>
   method' (request ''GET'' ''/users/foo'') = method_name GET \<and>
   routes (configure [Use (stamp ''a''), Get root hello_world, Use (stamp ''b''), Get user hello_user])
       (request ''GET'' ''/users/foo'') downstream =
     Inr ((request ''GET'' ''/users/foo'')
            \<lparr>headers := [''X-Trace'' \<mapsto> ''b''], params := [(''id'', ''foo'')],
             status := 200, body := Some ''Hello, foo!''\<rparr>)"
proof -
  let ?cs = "[Use (stamp ''a''), Get root hello_world, Use (stamp ''b''), Get user hello_user]"
  let ?ctx = "request ''GET'' ''/users/foo''"
  have a: "registrations ?cs =
     [(GET, root, hello_world), (HEAD, root, hello_world)] @ (GET, user, hello_user) # [(HEAD, user, hello_user)]"
    by (simp add: registrations_def)
  have p: "Route_parse (path ?ctx) = \<lparr>parts = [''users'', ''foo''], query = []\<rparr>"
    by (simp add: request_def parse_users_foo)
  have b: "first_match [(GET, root, hello_world), (HEAD, root, hello_world)] GET
     (Route_parse (path ?ctx)) = None"
    unfolding p by (simp add: root_def end_match_def Route_isEmpty_def)
  have c: "parser user (Route_parse (path ?ctx)) =
     Some ([(''id'', ''foo'')], \<lparr>parts = [], query = []\<rparr>)"
    unfolding p by (simp add: user_def then_match_def lit_def str_def end_match_def Route_isEmpty_def)
  have d: "method' ?ctx = method_name GET"
    by (simp add: request_def)
  have "routes (configure ?cs) ?ctx downstream =
      koa_compose (global_middlewares ?cs) ?ctx
        (\<lambda>c. hello_user (c\<lparr>params := [(''id'', ''foo'')]\<rparr>) downstream)"
    using C2_routes_dispatch [OF a b c d, of downstream] by blast
  then have e: "routes (configure ?cs) ?ctx downstream =
      Inr (?ctx\<lparr>headers := [''X-Trace'' \<mapsto> ''b''], params := [(''id'', ''foo'')],
                status := 200, body := Some ''Hello, foo!''\<rparr>)"
    by (simp add: stamp_def hello_user_def field_def request_def)
  show ?thesis
    using a b c d e by simp
qed

text \<open>
  C3. On a request with method \<^verbatim>\<open>OPTIONS\<close>, \<^verbatim>\<open>allowedMethods()\<close> answers with status 200, an
  empty body and an \<^verbatim>\<open>Allow\<close> header, whatever \<^verbatim>\<open>next\<close> is (it is not called). The header
  joins with \<^verbatim>\<open>", "\<close> the names of the list \<open>allowed\<close>, whose elements are exactly the
  methods whose slot matches the path and which is a subsequence of the canonical list
  DELETE, GET, HEAD, PATCH, POST, PUT.
\<close>

theorem C3_options_allow:
  assumes "method' ctx = ''OPTIONS''"
  shows "allowedMethods this ctx next =
           Inr (ctx\<lparr>status := 200, body := Some [],
                    headers := (headers ctx)(''Allow'' \<mapsto>
                       join '', '' (map method_name (allowed this (path ctx))))\<rparr>) \<and>
         set (allowed this (path ctx)) = {m. parsers this m (Route_parse (path ctx)) \<noteq> None} \<and>
         subseq (allowed this (path ctx)) [DELETE, GET, HEAD, PATCH, POST, PUT]"
  using assms by (simp add: allowedMethods_def parseMethod_def allowed_set allowed_subseq)

theorem C3_witness:
  "method' (request ''OPTIONS'' ''/'') = ''OPTIONS'' \<and>
   allowedMethods (configure [Get root root_handler, Post root root_handler])
       (request ''OPTIONS'' ''/'') downstream =
     Inr ((request ''OPTIONS'' ''/'')
            \<lparr>status := 200, body := Some [], headers := [''Allow'' \<mapsto> ''GET, HEAD, POST'']\<rparr>) \<and>
   set (allowed (configure [Get root root_handler, Post root root_handler]) ''/'') = {GET, HEAD, POST}"
proof -
  have a: "method' (request ''OPTIONS'' ''/'') = ''OPTIONS''"
    by (simp add: request_def)
  show ?thesis
    using a C3_options_allow [OF a, of "configure [Get root root_handler, Post root root_handler]" downstream]
    by (simp add: allowed_example request_def)
qed

text \<open>
  C4. In \<^verbatim>\<open>allowedMethods()\<close>: a request whose method is not recognized gets status 501
  and \<^verbatim>\<open>next\<close> is not called; a request of a recognized method other than \<^verbatim>\<open>OPTIONS\<close>
  that is in the allowed list of the path is handed to \<^verbatim>\<open>next\<close>; one that is not in the
  list gets status 405 and the \<^verbatim>\<open>Allow\<close> header of the \<^verbatim>\<open>OPTIONS\<close> answer, and \<^verbatim>\<open>next\<close> is
  not called. The allowed list holds the methods whose slot matches the path.
\<close>

theorem C4_allowed_methods_errors:
  "(parseMethod (method' ctx) = None \<longrightarrow>
      allowedMethods this ctx next = Inr (ctx\<lparr>status := 501\<rparr>)) \<and>
   (parseMethod (method' ctx) = Some (Routed m) \<and> m \<in> set (allowed this (path ctx)) \<longrightarrow>
      allowedMethods this ctx next = next ctx) \<and>
   (parseMethod (method' ctx) = Some (Routed m) \<and> m \<notin> set (allowed this (path ctx)) \<longrightarrow>
      allowedMethods this ctx next =
        Inr (ctx\<lparr>status := 405,
                 headers := (headers ctx)(''Allow'' \<mapsto>
                    join '', '' (map method_name (allowed this (path ctx))))\<rparr>)) \<and>
   set (allowed this (path ctx)) = {m. parsers this m (Route_parse (path ctx)) \<noteq> None}"
  by (simp add: allowedMethods_def allowed_set)

theorem C4_witness:
  "parseMethod (method' (request ''TRACE'' ''/'')) = None \<and>
   allowedMethods (configure [Get root root_handler, Post root root_handler])
       (request ''TRACE'' ''/'') downstream =
     Inr ((request ''TRACE'' ''/'')\<lparr>status := 501\<rparr>) \<and>
   parseMethod (method' (request ''GET'' ''/'')) = Some (Routed GET) \<and>
   GET \<in> set (allowed (configure [Get root root_handler, Post root root_handler]) (path (request ''GET'' ''/''))) \<and>
   allowedMethods (configure [Get root root_handler, Post root root_handler])
       (request ''GET'' ''/'') downstream =
     downstream (request ''GET'' ''/'') \<and>
   parseMethod (method' (request ''PUT'' ''/'')) = Some (Routed PUT) \<and>
   PUT \<notin> set (allowed (configure [Get root root_handler, Post root root_handler]) (path (request ''PUT'' ''/''))) \<and>
   allowedMethods (configure [Get root root_handler, Post root root_handler])
       (request ''PUT'' ''/'') downstream =
     Inr ((request ''PUT'' ''/'')
            \<lparr>status := 405, headers := [''Allow'' \<mapsto> ''GET, HEAD, POST'']\<rparr>)"
proof -
  let ?R = "configure [Get root root_handler, Post root root_handler]"
  have a: "parseMethod (method' (request ''TRACE'' ''/'')) = None"
    by (simp add: request_def parseMethod_def)
  have b: "parseMethod (method' (request ''GET'' ''/'')) = Some (Routed GET)"
    by (simp add: request_def parseMethod_def)
  have c: "parseMethod (method' (request ''PUT'' ''/'')) = Some (Routed PUT)"
    by (simp add: request_def parseMethod_def)
  have d: "GET \<in> set (allowed ?R (path (request ''GET'' ''/'')))"
    by (simp add: request_def allowed_example)
  have e: "PUT \<notin> set (allowed ?R (path (request ''PUT'' ''/'')))"
    by (simp add: request_def allowed_example)
  have r1: "allowedMethods ?R (request ''TRACE'' ''/'') downstream =
      Inr ((request ''TRACE'' ''/'')\<lparr>status := 501\<rparr>)"
    using a C4_allowed_methods_errors [of "request ''TRACE'' ''/''" ?R downstream GET]
    by blast
  have r2: "allowedMethods ?R (request ''GET'' ''/'') downstream = downstream (request ''GET'' ''/'')"
    using b d C4_allowed_methods_errors [of "request ''GET'' ''/''" ?R downstream GET]
    by blast
  have "allowedMethods ?R (request ''PUT'' ''/'') downstream =
      Inr ((request ''PUT'' ''/'')
             \<lparr>status := 405,
              headers := (headers (request ''PUT'' ''/''))(''Allow'' \<mapsto>
                 join '', '' (map method_name (allowed ?R (path (request ''PUT'' ''/'')))))\<rparr>)"
    using c e C4_allowed_methods_errors [of "request ''PUT'' ''/''" ?R downstream PUT]
    by blast
  then have r3: "allowedMethods ?R (request ''PUT'' ''/'') downstream =
      Inr ((request ''PUT'' ''/'')
             \<lparr>status := 405, headers := [''Allow'' \<mapsto> ''GET, HEAD, POST'']\<rparr>)"
    by (simp add: request_def allowed_example)
  show ?thesis
    using a b c d e r1 r2 r3 by simp
qed

text \<open>
  C5. Registration puts the new pattern into the slot of its method by alternation, after
  the value the slot has. So the slot of a configured router tries the registered triples
  of the method in the order of registration and the first pattern that matches wins:
  when two patterns registered for a method both match a route, the later one is never
  selected (the result is the one of the registrations up to the earlier pattern), and
  the handler selected is the one of the earlier pattern when nothing registered before
  it matches.
\<close>

theorem C5_first_registered_first_tried:
  "parsers (register m match middleware this) m =
     alt (parsers this m) (Parser_map (inject middleware) (parser match)) \<and>
   parsers (configure cs) m r = first_match (registrations cs) m r \<and>
   (registrations cs = earlier @ (m, patA, hA) # between @ (m, patB, hB) # later \<and>
    parser patA r = Some (psA, restA) \<and> parser patB r = Some (psB, restB) \<longrightarrow>
      parsers (configure cs) m r = first_match (earlier @ [(m, patA, hA)]) m r \<and>
      (first_match earlier m r = None \<longrightarrow>
         parsers (configure cs) m r = Some (inject hA psA, restA) \<and>
         parse (parsers (configure cs) m) r None = Some (inject hA psA)))"
proof -
  have "first_match (earlier @ (m, patA, hA) # between @ (m, patB, hB) # later) m r =
          first_match (earlier @ [(m, patA, hA)]) m r"
    if "parser patA r = Some (psA, restA)"
    using that by (simp add: first_match_append split: option.splits)
  moreover have "first_match (earlier @ [(m, patA, hA)]) m r = Some (inject hA psA, restA)"
    if "parser patA r = Some (psA, restA)" "first_match earlier m r = None"
    using that by (simp add: first_match_append)
  ultimately show ?thesis
    by (simp add: register_slot configure_parsers parse_def)
qed

theorem C5_witness:
  "registrations [Post profile hello_user, Post oldUser hello_world] =
     [] @ (POST, profile, hello_user) # [] @ (POST, oldUser, hello_world) # [] \<and>
   parser profile (Route_parse ''/john'') = Some ([(''id'', ''john'')], \<lparr>parts = [], query = []\<rparr>) \<and>
   parser oldUser (Route_parse ''/john'') = Some ([(''userID'', ''john'')], \<lparr>parts = [], query = []\<rparr>) \<and>
   first_match [] POST (Route_parse ''/john'') = (None :: (Params Middleware \<times> Route) option) \<and>
   parse (parsers (configure [Post profile hello_user, Post oldUser hello_world]) POST)
     (Route_parse ''/john'') None = Some (inject hello_user [(''id'', ''john'')])"
proof -
  let ?cs = "[Post profile hello_user, Post oldUser hello_world]"
  have a: "registrations ?cs = [] @ (POST, profile, hello_user) # [] @ (POST, oldUser, hello_world) # []"
    by (simp add: registrations_def)
  have b: "parser profile (Route_parse ''/john'') = Some ([(''id'', ''john'')], \<lparr>parts = [], query = []\<rparr>)"
    by (simp add: parse_john parse_profile_john)
  have c: "parser oldUser (Route_parse ''/john'') = Some ([(''userID'', ''john'')], \<lparr>parts = [], query = []\<rparr>)"
    by (simp add: parse_john parse_oldUser_john)
  have d: "first_match [] POST (Route_parse ''/john'') = (None :: (Params Middleware \<times> Route) option)"
    by simp
  have "parse (parsers (configure ?cs) POST) (Route_parse ''/john'') None =
          Some (inject hello_user [(''id'', ''john'')])"
    using a b c d
      C5_first_registered_first_tried [of POST _ _ _ ?cs "Route_parse ''/john''" "[]" profile hello_user
        "[]" oldUser hello_world "[]" "[(''id'', ''john'')]" "\<lparr>parts = [], query = []\<rparr>"
        "[(''userID'', ''john'')]" "\<lparr>parts = [], query = []\<rparr>"]
    by blast
  with a b c d show ?thesis by simp
qed

text \<open>
  C6, as amended. \<^verbatim>\<open>get(pattern, handler)\<close> appends the same pair, with the same
  parameter-injecting handler, to the slot of GET and to the slot of HEAD. If the two
  slots are equal before the call they are equal after it; for a router configured
  without any call of \<^verbatim>\<open>redirect\<close> the HEAD slot equals the GET slot, so a HEAD request
  selects the handler and the parameters the GET request on the same path selects.
\<close>

theorem C6_get_registers_head:
  "parsers (get match h this) GET =
     alt (parsers this GET) (Parser_map (inject h) (parser match)) \<and>
   parsers (get match h this) HEAD =
     alt (parsers this HEAD) (Parser_map (inject h) (parser match)) \<and>
   (parsers this HEAD = parsers this GET \<longrightarrow>
      parsers (get match h this) HEAD = parsers (get match h this) GET) \<and>
   (list_all (\<lambda>c. \<not> is_redirect c) cs \<longrightarrow>
      parsers (configure cs) HEAD = parsers (configure cs) GET)"
proof -
  have "parsers (configure cs) HEAD = parsers (configure cs) GET"
    if "list_all (\<lambda>c. \<not> is_redirect c) cs"
    using that by (intro ext) (simp add: configure_parsers first_match_head_get)
  then show ?thesis
    by (simp add: get_def register_slot)
qed

theorem C6_witness:
  "parsers (Router_new :: Params Router) HEAD = parsers Router_new GET \<and>
   parsers (get root hello_world Router_new) HEAD = parsers (get root hello_world Router_new) GET \<and>
   list_all (\<lambda>c. \<not> is_redirect c) [Get root hello_world, Post root root_handler, Get user hello_user] \<and>
   parsers (configure [Get root hello_world, Post root root_handler, Get user hello_user]) HEAD =
     parsers (configure [Get root hello_world, Post root root_handler, Get user hello_user]) GET"
proof -
  let ?cs = "[Get root hello_world, Post root root_handler, Get user hello_user]"
  have a: "parsers (Router_new :: Params Router) HEAD = parsers Router_new GET"
    by (simp add: Router_new_def)
  have b: "list_all (\<lambda>c. \<not> is_redirect c) ?cs"
    by simp
  have "parsers (get root hello_world Router_new) HEAD = parsers (get root hello_world Router_new) GET"
    using a C6_get_registers_head [of root hello_world Router_new ?cs] by blast
  moreover have "parsers (configure ?cs) HEAD = parsers (configure ?cs) GET"
    using b C6_get_registers_head [of root hello_world Router_new ?cs] by blast
  ultimately show ?thesis
    using a b by simp
qed

text \<open>
  C6, as stated, fails once a redirect is registered, because \<^verbatim>\<open>redirect\<close> registers under
  GET and not under HEAD. With a redirect from \<open>oldUser\<close> registered before
  \<^verbatim>\<open>get(profile, hello_user)\<close>, the request \<^verbatim>\<open>HEAD /john\<close> runs \<open>hello_user\<close> with the
  parameters \<^verbatim>\<open>{ id: 'john' }\<close>, and \<^verbatim>\<open>GET /john\<close> is redirected.
\<close>

theorem C6_head_differs_from_get:
  "routes (configure [Redirect oldUser newUser userID_to_id None, Get profile hello_user])
       (request ''HEAD'' ''/john'') downstream =
     Inr ((request ''HEAD'' ''/john'')
            \<lparr>params := [(''id'', ''john'')], status := 200, body := Some ''Hello, john!''\<rparr>) \<and>
   routes (configure [Redirect oldUser newUser userID_to_id None, Get profile hello_user])
       (request ''GET'' ''/john'') downstream =
     Inr ((request ''GET'' ''/john'')
            \<lparr>params := [(''userID'', ''john'')], headers := [''Location'' \<mapsto> ''/users/john''],
             status := 302, body := Some ''Redirecting to /users/john.''\<rparr>)"
proof -
  let ?cs = "[Redirect oldUser newUser userID_to_id None, Get profile hello_user]"
  let ?r = "\<lparr>parts = [''john''], query = []\<rparr>"
  have h: "first_match (registrations ?cs) HEAD ?r =
             Some (inject hello_user [(''id'', ''john'')], \<lparr>parts = [], query = []\<rparr>)"
    by (simp add: registrations_def parse_profile_john)
  have g: "first_match (registrations ?cs) GET ?r =
             Some (inject (redirect_handler newUser userID_to_id None) [(''userID'', ''john'')],
                   \<lparr>parts = [], query = []\<rparr>)"
    by (simp add: registrations_def parse_oldUser_john)
  have "routes (configure ?cs) (request ''HEAD'' ''/john'') downstream =
      inject hello_user [(''id'', ''john'')] (request ''HEAD'' ''/john'') downstream"
    using routes_configure [of "request ''HEAD'' ''/john''" HEAD ?cs _ _ downstream] h
    by (simp add: request_def parseMethod_def parse_john)
  moreover have "routes (configure ?cs) (request ''GET'' ''/john'') downstream =
      inject (redirect_handler newUser userID_to_id None) [(''userID'', ''john'')]
        (request ''GET'' ''/john'') downstream"
    using routes_configure [of "request ''GET'' ''/john''" GET ?cs _ _ downstream] g
    by (simp add: request_def parseMethod_def parse_john)
  ultimately show ?thesis
    by (simp add: inject_def hello_user_def redirect_handler_def ctx_redirect_def format_newUser
        field_def request_def)
qed

text \<open>
  C7. \<^verbatim>\<open>routes()\<close> hands the request to \<^verbatim>\<open>next\<close> with the context as it came, running no
  global middleware and no handler, when the method is not recognized, when it is
  \<^verbatim>\<open>OPTIONS\<close>, and when the slot of the (recognized) method does not match the path; for a
  configured router the last case is the one where no pattern registered for the method
  matches the path.
\<close>

theorem C7_routes_passthrough:
  "(parseMethod (method' ctx) = None \<longrightarrow> routes this ctx next = next ctx) \<and>
   (parseMethod (method' ctx) = Some OPTIONS \<longrightarrow> routes this ctx next = next ctx) \<and>
   (parseMethod (method' ctx) = Some (Routed m) \<and>
      parsers this m (Route_parse (path ctx)) = None \<longrightarrow>
        routes this ctx next = next ctx) \<and>
   (parseMethod (method' ctx) = Some (Routed m) \<and>
      list_all (\<lambda>(m', pat, h). m' = m \<longrightarrow> parser pat (Route_parse (path ctx)) = None)
        (registrations cs) \<longrightarrow>
        routes (configure cs) ctx next = next ctx)"
proof -
  have "routes (configure cs) ctx next = next ctx"
    if "parseMethod (method' ctx) = Some (Routed m)"
      and "list_all (\<lambda>(m', pat, h). m' = m \<longrightarrow> parser pat (Route_parse (path ctx)) = None)
             (registrations cs)"
  proof -
    have "parsers (configure cs) m (Route_parse (path ctx)) = None"
      using that(2) by (simp add: configure_parsers first_match_no_pattern)
    with that(1) show ?thesis by (rule routes_no_match)
  qed
  then show ?thesis
    by (simp add: routes_def parse_def)
qed

theorem C7_witness:
  "parseMethod (method' (request ''TRACE'' ''/'')) = None \<and>
   routes (configure [Use deny, Get root hello_world]) (request ''TRACE'' ''/'') downstream =
     Inr (request ''TRACE'' ''/'') \<and>
   parseMethod (method' (request ''OPTIONS'' ''/'')) = Some OPTIONS \<and>
   routes (configure [Use deny, Get root hello_world]) (request ''OPTIONS'' ''/'') downstream =
     Inr (request ''OPTIONS'' ''/'') \<and>
   parseMethod (method' (request ''POST'' ''/'')) = Some (Routed POST) \<and>
   parsers (configure [Use deny, Get root hello_world]) POST
     (Route_parse (path (request ''POST'' ''/''))) = None \<and>
   routes (configure [Use deny, Get root hello_world]) (request ''POST'' ''/'') downstream =
     Inr (request ''POST'' ''/'') \<and>
   parseMethod (method' (request ''GET'' ''/john'')) = Some (Routed GET) \<and>
   list_all (\<lambda>(m', pat, h). m' = GET \<longrightarrow> parser pat (Route_parse (path (request ''GET'' ''/john''))) = None)
     (registrations [Use deny, Get root hello_world]) \<and>
   routes (configure [Use deny, Get root hello_world]) (request ''GET'' ''/john'') downstream =
     Inr (request ''GET'' ''/john'')"
proof -
  let ?cs = "[Use deny, Get root hello_world]"
  let ?R = "configure ?cs"
  have a: "parseMethod (method' (request ''TRACE'' ''/'')) = None"
    by (simp add: request_def parseMethod_def)
  have b: "parseMethod (method' (request ''OPTIONS'' ''/'')) = Some OPTIONS"
    by (simp add: request_def parseMethod_def)
  have c: "parseMethod (method' (request ''POST'' ''/'')) = Some (Routed POST)"
    by (simp add: request_def parseMethod_def)
  have d: "parsers ?R POST (Route_parse (path (request ''POST'' ''/''))) = None"
    by (simp add: configure_parsers registrations_def)
  have e: "parseMethod (method' (request ''GET'' ''/john'')) = Some (Routed GET)"
    by (simp add: request_def parseMethod_def)
  have f: "list_all (\<lambda>(m', pat, h). m' = GET \<longrightarrow>
                parser pat (Route_parse (path (request ''GET'' ''/john''))) = None)
             (registrations ?cs)"
    by (simp add: registrations_def request_def parse_john root_def end_match_def Route_isEmpty_def)
  have r1: "routes ?R (request ''TRACE'' ''/'') downstream = downstream (request ''TRACE'' ''/'')"
    using a C7_routes_passthrough [of "request ''TRACE'' ''/''" ?R downstream GET ?cs] by blast
  have r2: "routes ?R (request ''OPTIONS'' ''/'') downstream = downstream (request ''OPTIONS'' ''/'')"
    using b C7_routes_passthrough [of "request ''OPTIONS'' ''/''" ?R downstream GET ?cs] by blast
  have r3: "routes ?R (request ''POST'' ''/'') downstream = downstream (request ''POST'' ''/'')"
    using c d C7_routes_passthrough [of "request ''POST'' ''/''" ?R downstream POST ?cs] by blast
  have r4: "routes ?R (request ''GET'' ''/john'') downstream = downstream (request ''GET'' ''/john'')"
    using e f C7_routes_passthrough [of "request ''GET'' ''/john''" ?R downstream GET ?cs] by blast
  show ?thesis
    using a b c d e f r1 r2 r3 r4 by (simp add: downstream_def)
qed

text \<open>
  C8, as amended. \<^verbatim>\<open>redirect(src, dest, f, code)\<close> appends the source pattern, with the
  redirecting handler, to the slot of each of DELETE, GET, PATCH, POST and PUT. A request
  of one of these methods whose path matches \<open>src\<close> with the parameters \<open>ps\<close>, and
  matches no pattern registered for the method before the redirect, goes through the
  global middlewares to that handler, whatever is registered afterwards. The handler
  answers with the \<^verbatim>\<open>Location\<close> header \<open>format dest (f ps)\<close> and the final status
  \<open>code\<close>, which is 302 when the argument is omitted.
\<close>

theorem C8_redirect_response:
  assumes "m \<in> set [DELETE, GET, PATCH, POST, PUT]"
    and "method' ctx = method_name m"
    and "first_match (registrations before) m (Route_parse (path ctx)) = None"
    and "parser src (Route_parse (path ctx)) = Some (ps, rest)"
  shows "parsers (redirect src dest f code this) m =
           alt (parsers this m) (Parser_map (inject (redirect_handler dest f code)) (parser src)) \<and>
         routes (configure (before @ Redirect src dest f code # after)) ctx next =
           koa_compose (global_middlewares (before @ Redirect src dest f code # after)) ctx
             (\<lambda>c. Inr ((ctx_redirect (format (formatter dest) (f ps)) (c\<lparr>params := ps\<rparr>))
                          \<lparr>status := (case code of None \<Rightarrow> 302 | Some k \<Rightarrow> k)\<rparr>)) \<and>
         headers ((ctx_redirect (format (formatter dest) (f ps)) (c\<lparr>params := ps\<rparr>))
                    \<lparr>status := (case code of None \<Rightarrow> 302 | Some k \<Rightarrow> k)\<rparr>) ''Location'' =
           Some (format (formatter dest) (f ps)) \<and>
         status ((ctx_redirect (format (formatter dest) (f ps)) (c\<lparr>params := ps\<rparr>))
                    \<lparr>status := (case code of None \<Rightarrow> 302 | Some k \<Rightarrow> k)\<rparr>) =
           (case code of None \<Rightarrow> 302 | Some k \<Rightarrow> k)"
proof -
  let ?cs = "before @ Redirect src dest f code # after"
  have m: "m \<noteq> HEAD"
    using assms(1) by auto
  have "first_match (registrations ?cs) m (Route_parse (path ctx)) =
          Some (inject (redirect_handler dest f code) ps, rest)"
    using m assms(3,4)
    by (simp add: registrations_append registrations_Cons first_match_append
        first_match_redirect del: registered.simps)
  moreover have "parseMethod (method' ctx) = Some (Routed m)"
    using assms(2) by (simp add: parseMethod_method_name)
  ultimately have "routes (configure ?cs) ctx next =
      koa_compose (global_middlewares ?cs) ctx
        (\<lambda>c. inject (redirect_handler dest f code) ps c next)"
    by (rule routes_configure [rotated])
  then show ?thesis
    using m
    by (simp add: redirect_slot inject_def redirect_handler_def ctx_redirect_def Let_def)
qed

theorem C8_witness:
  "POST \<in> set [DELETE, GET, PATCH, POST, PUT] \<and>
   method' (request ''POST'' ''/john'') = method_name POST \<and>
   first_match (registrations [Use (stamp ''a''), Get root hello_world]) POST
     (Route_parse (path (request ''POST'' ''/john''))) = None \<and>
   parser oldUser (Route_parse (path (request ''POST'' ''/john''))) =
     Some ([(''userID'', ''john'')], \<lparr>parts = [], query = []\<rparr>) \<and>
   routes (configure ([Use (stamp ''a''), Get root hello_world] @
                      Redirect oldUser newUser userID_to_id (Some 301) # [Get profile hello_user]))
       (request ''POST'' ''/john'') downstream =
     Inr ((request ''POST'' ''/john'')
            \<lparr>params := [(''userID'', ''john'')],
             headers := [''X-Trace'' \<mapsto> ''a'', ''Location'' \<mapsto> ''/users/john''],
             status := 301, body := Some ''Redirecting to /users/john.''\<rparr>)"
proof -
  let ?before = "[Use (stamp ''a''), Get root hello_world]"
  let ?ctx = "request ''POST'' ''/john''"
  have a: "POST \<in> set [DELETE, GET, PATCH, POST, PUT]" by simp
  have b: "method' ?ctx = method_name POST" by (simp add: request_def)
  have c: "first_match (registrations ?before) POST (Route_parse (path ?ctx)) = None"
    by (simp add: registrations_def)
  have d: "parser oldUser (Route_parse (path ?ctx)) =
      Some ([(''userID'', ''john'')], \<lparr>parts = [], query = []\<rparr>)"
    by (simp add: request_def parse_john parse_oldUser_john)
  have "routes (configure (?before @ Redirect oldUser newUser userID_to_id (Some 301) # [Get profile hello_user]))
          ?ctx downstream =
        koa_compose (global_middlewares (?before @ Redirect oldUser newUser userID_to_id (Some 301) # [Get profile hello_user])) ?ctx
          (\<lambda>c. Inr ((ctx_redirect (format (formatter newUser) (userID_to_id [(''userID'', ''john'')]))
                        (c\<lparr>params := [(''userID'', ''john'')]\<rparr>))
                       \<lparr>status := (case Some 301 of None \<Rightarrow> 302 | Some k \<Rightarrow> k)\<rparr>))"
    using C8_redirect_response [OF a b c d, of newUser userID_to_id "Some 301" _ "[Get profile hello_user]" downstream]
    by blast
  then have e: "routes (configure (?before @ Redirect oldUser newUser userID_to_id (Some 301) # [Get profile hello_user]))
          ?ctx downstream =
     Inr (?ctx\<lparr>params := [(''userID'', ''john'')],
             headers := [''X-Trace'' \<mapsto> ''a'', ''Location'' \<mapsto> ''/users/john''],
             status := 301, body := Some ''Redirecting to /users/john.''\<rparr>)"
    by (simp add: format_newUser stamp_def ctx_redirect_def request_def)
  show ?thesis
    using a b c d e by simp
qed

text \<open>
  C8, as stated, fails for a request that an earlier registration of the same method
  matches: the first registered pattern wins. After \<^verbatim>\<open>get(profile, hello_user)\<close> and then
  the redirect from \<open>oldUser\<close>, the path of \<^verbatim>\<open>GET /john\<close> matches \<open>oldUser\<close>, and the
  request is answered by \<open>hello_user\<close>: status 200 and no \<^verbatim>\<open>Location\<close> header.
\<close>

theorem C8_earlier_route_shadows_redirect:
  "parser oldUser (Route_parse (path (request ''GET'' ''/john''))) =
     Some ([(''userID'', ''john'')], \<lparr>parts = [], query = []\<rparr>) \<and>
   routes (configure [Get profile hello_user, Redirect oldUser newUser userID_to_id None])
       (request ''GET'' ''/john'') downstream =
     Inr ((request ''GET'' ''/john'')
            \<lparr>params := [(''id'', ''john'')], status := 200, body := Some ''Hello, john!''\<rparr>) \<and>
   headers ((request ''GET'' ''/john'')
            \<lparr>params := [(''id'', ''john'')], status := 200, body := Some ''Hello, john!''\<rparr>)
      ''Location'' = None"
proof -
  let ?cs = "[Get profile hello_user, Redirect oldUser newUser userID_to_id None]"
  have g: "first_match (registrations ?cs) GET \<lparr>parts = [''john''], query = []\<rparr> =
             Some (inject hello_user [(''id'', ''john'')], \<lparr>parts = [], query = []\<rparr>)"
    by (simp add: registrations_def parse_profile_john)
  have "routes (configure ?cs) (request ''GET'' ''/john'') downstream =
      inject hello_user [(''id'', ''john'')] (request ''GET'' ''/john'') downstream"
    using routes_configure [of "request ''GET'' ''/john''" GET ?cs _ _ downstream] g
    by (simp add: request_def parseMethod_def parse_john)
  then show ?thesis
    by (simp add: inject_def hello_user_def field_def request_def parse_john parse_oldUser_john)
qed

text \<open>
  C9. A new router has the empty matcher, which fails on every route, in each of its six
  method slots; no request matches under any method, and \<^verbatim>\<open>routes()\<close> passes every
  request on to \<^verbatim>\<open>next\<close> with the context as it came.
\<close>

theorem C9_fresh_router_empty:
  "parsers Router_new m = zero \<and>
   zero r = None \<and>
   parsers (Router_new :: 'p Router) m r = None \<and>
   parse (parsers (Router_new :: 'p Router) m) r None = None \<and>
   routes (Router_new :: 'p Router) ctx next = next ctx"
  by (simp add: Router_new_def zero_def parse_def routes_def split: option.splits Method.splits)

text \<open>
  C10. \<^verbatim>\<open>redirect\<close> leaves the HEAD slot as it is. A HEAD request that the HEAD slot did
  not match before the redirect was registered is passed to \<^verbatim>\<open>next\<close>, also when its path
  matches the source pattern; in a configured router a HEAD request whose path matches
  no pattern given to \<^verbatim>\<open>get\<close> is passed to \<^verbatim>\<open>next\<close>, whatever redirects are registered.
  \<^verbatim>\<open>get\<close>, unlike \<^verbatim>\<open>redirect\<close>, appends its pattern to the HEAD slot.
\<close>

theorem C10_redirect_skips_head:
  "parsers (redirect src dest f code this) HEAD = parsers this HEAD \<and>
   (method' ctx = ''HEAD'' \<and> parsers this HEAD (Route_parse (path ctx)) = None \<longrightarrow>
      routes (redirect src dest f code this) ctx next = next ctx) \<and>
   (method' ctx = ''HEAD'' \<and>
    list_all (\<lambda>pat. parser pat (Route_parse (path ctx)) = None) (get_patterns cs) \<longrightarrow>
      routes (configure cs) ctx next = next ctx) \<and>
   parsers (get match h this) HEAD =
     alt (parsers this HEAD) (Parser_map (inject h) (parser match))"
proof -
  have p: "parseMethod (method' ctx) = Some (Routed HEAD)" if "method' ctx = ''HEAD''"
    using that by (simp add: parseMethod_def)
  have "routes (redirect src dest f code this) ctx next = next ctx"
    if "method' ctx = ''HEAD''" "parsers this HEAD (Route_parse (path ctx)) = None"
    using that by (intro routes_no_match [OF p]) (simp_all add: redirect_head)
  moreover have "routes (configure cs) ctx next = next ctx"
    if "method' ctx = ''HEAD''"
      "list_all (\<lambda>pat. parser pat (Route_parse (path ctx)) = None) (get_patterns cs)"
    using that
    by (intro routes_no_match [OF p]) (simp_all add: configure_parsers first_match_head_none)
  ultimately show ?thesis
    by (simp add: redirect_head get_def register_slot)
qed

theorem C10_witness:
  "method' (request ''HEAD'' ''/john'') = ''HEAD'' \<and>
   parsers (Router_new :: Params Router) HEAD (Route_parse (path (request ''HEAD'' ''/john''))) = None \<and>
   parser oldUser (Route_parse (path (request ''HEAD'' ''/john''))) =
     Some ([(''userID'', ''john'')], \<lparr>parts = [], query = []\<rparr>) \<and>
   routes (redirect oldUser newUser userID_to_id None Router_new) (request ''HEAD'' ''/john'') downstream =
     Inr (request ''HEAD'' ''/john'') \<and>
   list_all (\<lambda>pat. parser pat (Route_parse (path (request ''HEAD'' ''/john''))) = None)
     (get_patterns [Get root hello_world, Redirect oldUser newUser userID_to_id None]) \<and>
   routes (configure [Get root hello_world, Redirect oldUser newUser userID_to_id None])
       (request ''HEAD'' ''/john'') downstream =
     Inr (request ''HEAD'' ''/john'')"
proof -
  let ?ctx = "request ''HEAD'' ''/john''"
  let ?cs = "[Get root hello_world, Redirect oldUser newUser userID_to_id None]"
  have a: "method' ?ctx = ''HEAD''" by (simp add: request_def)
  have b: "parsers (Router_new :: Params Router) HEAD (Route_parse (path ?ctx)) = None"
    by (simp add: Router_new_def zero_def)
  have c: "parser oldUser (Route_parse (path ?ctx)) =
      Some ([(''userID'', ''john'')], \<lparr>parts = [], query = []\<rparr>)"
    by (simp add: request_def parse_john parse_oldUser_john)
  have d: "list_all (\<lambda>pat. parser pat (Route_parse (path ?ctx)) = None) (get_patterns ?cs)"
    by (simp add: request_def parse_john root_def end_match_def Route_isEmpty_def)
  have r1: "routes (redirect oldUser newUser userID_to_id None Router_new) ?ctx downstream = downstream ?ctx"
    using a b C10_redirect_skips_head [of oldUser newUser userID_to_id None Router_new ?ctx downstream ?cs]
    by blast
  have r2: "routes (configure ?cs) ?ctx downstream = downstream ?ctx"
    using a d C10_redirect_skips_head [of oldUser newUser userID_to_id None Router_new ?ctx downstream ?cs]
    by blast
  show ?thesis
    using a b c d r1 r2 by (simp add: downstream_def)
qed

end
